theory Spec2Isabelle
  imports Complex_Main "HOL-Library.Log_Nat" "HOL-Library.Multiset"
begin

section \<open>Python values and exceptions\<close>

text \<open>
  The exceptions the modelled code can raise are Python's built-in ones.
  \<open>InvalidConfiguration\<close> is the error the specification names for a zero return
  target; no path of the source raises it, and it is listed only so that statements can
  tell it apart from the exceptions that do occur.
\<close>

datatype error =
    KeyError
  | ValueError
  | TypeError
  | ZeroDivisionError
  | OverflowError
  | InvalidConfiguration

text \<open>
  The values stored in a scraped property dictionary: strings (every field that
  \<open>extract_property_data\<close> reads from the page), \<open>None\<close> (an anchor without
  \<open>href\<close>) and integers (the score added by the analysis). Characters are the code
  points 0 to 255.
\<close>

datatype pyval = VNone | VInt int | VStr string

type_synonym pydict = "string \<rightharpoonup> pyval"

definition getitem :: "pydict \<Rightarrow> string \<Rightarrow> error + pyval" where
  \<comment> \<open>\<open>d[k]\<close>: a missing key raises \<open>KeyError\<close>.\<close>
  "getitem d k = (case d k of None \<Rightarrow> Inl KeyError | Some v \<Rightarrow> Inr v)"

subsection \<open>\<open>int(...)\<close>\<close>

definition is_space :: "char \<Rightarrow> bool" where
  \<comment> \<open>The characters \<open>int\<close> skips around a number: tab, newline, vertical tab, form
      feed, carriage return, space, and the Latin-1 whitespace U+0085 and U+00A0.\<close>
  "is_space c = (of_char c \<in> {9, 10, 11, 12, 13, 32, 133, 160 :: nat})"

definition is_digit :: "char \<Rightarrow> bool" where
  "is_digit c = (48 \<le> (of_char c :: nat) \<and> (of_char c :: nat) \<le> 57)"

definition digit_value :: "char \<Rightarrow> nat" where
  "digit_value c = of_char c - 48"

text \<open>
  The body of a decimal literal: digits, where a single underscore may stand between two
  digits. \<open>digits_rest\<close> is entered after a digit has been read.
\<close>

fun digits_rest :: "nat \<Rightarrow> string \<Rightarrow> nat option" where
  "digits_rest acc [] = Some acc"
| "digits_rest acc (c # cs) =
     (if is_digit c then digits_rest (10 * acc + digit_value c) cs
      else if c = CHR ''_'' then
        (case cs of
           [] \<Rightarrow> None
         | d # ds \<Rightarrow> if is_digit d then digits_rest (10 * acc + digit_value d) ds else None)
      else None)"

definition digits :: "string \<Rightarrow> nat option" where
  "digits s =
     (case s of
        [] \<Rightarrow> None
      | c # cs \<Rightarrow> if is_digit c then digits_rest (digit_value c) cs else None)"

definition max_str_digits :: nat where
  \<comment> \<open>CPython's default limit on the number of digits of a decimal string conversion.\<close>
  "max_str_digits = 4300"

definition strip :: "string \<Rightarrow> string" where
  "strip s = rev (dropWhile is_space (rev (dropWhile is_space s)))"

definition int_of_string :: "string \<Rightarrow> error + int" where
  "int_of_string s =
     (let t = strip s;
          (neg, body) = (case t of
                           [] \<Rightarrow> (False, [])
                         | c # cs \<Rightarrow> if c = CHR ''-'' then (True, cs)
                                    else if c = CHR ''+'' then (False, cs)
                                    else (False, t))
      in if max_str_digits < length (filter is_digit body) then Inl ValueError
         else case digits body of
                None \<Rightarrow> Inl ValueError
              | Some n \<Rightarrow> Inr (if neg then - int n else int n))"

fun py_int :: "pyval \<Rightarrow> error + int" where
  "py_int VNone = Inl TypeError"
| "py_int (VInt i) = Inr i"
| "py_int (VStr s) = int_of_string s"

subsection \<open>\<open>str(...)\<close>, as used by an f-string\<close>

fun decimal :: "nat \<Rightarrow> string" where
  "decimal n =
     (if n < 10 then [char_of (48 + n)] else decimal (n div 10) @ [char_of (48 + n mod 10)])"

declare decimal.simps [simp del]

fun py_str :: "pyval \<Rightarrow> string" where
  "py_str VNone = ''None''"
| "py_str (VInt i) = (if i < 0 then CHR ''-'' # decimal (nat (- i)) else decimal (nat i))"
| "py_str (VStr s) = s"

section \<open>The scraper: scoring one property\<close>

text \<open>
  \<open>calculate_opportunity_score\<close>. The \<open>try\<close> block reads the key and converts it;
  the bare \<open>except\<close> turns any exception raised there (a missing key, a value that is
  not a number) into ten points. The returned dictionary is built afterwards, outside the
  \<open>try\<close>, and reads the key once more for the note.
\<close>

definition dom_score :: "pydict \<Rightarrow> int \<Rightarrow> int" where
  "dom_score property_data score =
     (case (case getitem property_data ''days_on_market'' of
              Inl e \<Rightarrow> Inl e
            | Inr v \<Rightarrow> py_int v) of
        Inr dom' \<Rightarrow>
          (if dom' > 120 then score + 40
           else if dom' > 90 then score + 30
           else if dom' > 60 then score + 20
           else score)
      | Inl e \<Rightarrow> score + 10)"

definition action_for :: "int \<Rightarrow> string" where
  "action_for score =
     (if score \<ge> 70 then ''CALL TODAY - Strong opportunity''
      else if score \<ge> 50 then ''CALL THIS WEEK - Good potential''
      else ''RESEARCH MORE - Gather intel'')"

definition calculate_opportunity_score :: "pydict \<Rightarrow> error + pydict" where
  "calculate_opportunity_score property_data =
     (let score = dom_score property_data 0;
          action = action_for score
      in case getitem property_data ''days_on_market'' of
           Inl e \<Rightarrow> Inl e
         | Inr v \<Rightarrow>
             Inr [''opportunity_score'' \<mapsto> VInt score,
                  ''recommended_action'' \<mapsto> VStr action,
                  ''analysis_notes'' \<mapsto> VStr (''DOM: '' @ py_str v @ '' days'')])"

definition score_and_action :: "pydict \<Rightarrow> error + pyval option \<times> pyval option" where
  \<comment> \<open>The two entries of the returned dictionary that carry the score and the action.\<close>
  "score_and_action property_data =
     (case calculate_opportunity_score property_data of
        Inl e \<Rightarrow> Inl e
      | Inr analysis \<Rightarrow> Inr (analysis ''opportunity_score'', analysis ''recommended_action''))"


section \<open>The scraper: analysing the batch\<close>








section \<open>Python floats\<close>

text \<open>
  A Python \<open>float\<close> is an IEEE 754 binary64 number: a finite value, an infinity or a
  NaN. A finite value is modelled by the rational number it denotes. The sign of a zero is
  not kept: the code modelled here cannot observe it, because dividing by either zero
  raises \<open>ZeroDivisionError\<close>, both zeros are false, and \<open>int\<close> maps both to 0.
  Every operation rounds its exact result to the nearest double, so the values computed
  from doubles are doubles; the statements below hold for every rational argument, the
  doubles among them.
\<close>

datatype pyfloat = Finite rat | PosInf | NegInf | NaN

definition ilog2 :: "rat \<Rightarrow> int" where
  \<comment> \<open>For \<open>q > 0\<close>, the exponent \<open>e\<close> with \<open>2\<^sup>e \<le> q < 2\<^sup>e\<^sup>+\<^sup>1\<close>.\<close>
  "ilog2 q = (if 1 \<le> q then bitlen \<lfloor>q\<rfloor> - 1 else - bitlen (\<lceil>1 / q\<rceil> - 1))"

definition round_even :: "rat \<Rightarrow> int" where
  \<comment> \<open>The nearest integer, a tie going to the even one.\<close>
  "round_even x =
     (let f = \<lfloor>x\<rfloor>; r = x - of_int f
      in if r < 1 / 2 then f
         else if 1 / 2 < r then f + 1
         else if even f then f else f + 1)"

definition ulp :: "rat \<Rightarrow> rat" where
  \<comment> \<open>The spacing of the doubles around \<open>q \<noteq> 0\<close>: 53 significant bits, and the
      fixed spacing \<open>2\<^sup>-\<^sup>1\<^sup>0\<^sup>7\<^sup>4\<close> of the subnormal range.\<close>
  "ulp q = 2 powi (max (ilog2 \<bar>q\<bar>) (- 1022) - 52)"

definition nearest :: "rat \<Rightarrow> rat" where
  \<comment> \<open>Round to nearest, ties to even, with an unbounded exponent.\<close>
  "nearest q = (if q = 0 then 0 else of_int (round_even (q / ulp q)) * ulp q)"

definition round_double :: "rat \<Rightarrow> pyfloat" where
  \<comment> \<open>The double an exact result is rounded to; a rounded magnitude of \<open>2\<^sup>1\<^sup>0\<^sup>2\<^sup>4\<close> or
      more overflows to an infinity.\<close>
  "round_double q =
     (let r = nearest q
      in if r = 0 then Finite 0
         else if 1024 \<le> ilog2 \<bar>r\<bar> then (if 0 < r then PosInf else NegInf)
         else Finite r)"

definition float_literal :: "rat \<Rightarrow> pyfloat" where
  \<comment> \<open>A decimal literal of the source, such as \<open>0.85\<close>, denotes the nearest double.\<close>
  "float_literal q = round_double q"

fun is_nan :: "pyfloat \<Rightarrow> bool" where
  "is_nan NaN = True"
| "is_nan _ = False"

fun is_zero :: "pyfloat \<Rightarrow> bool" where
  "is_zero (Finite a) = (a = 0)"
| "is_zero _ = False"

fun negative :: "pyfloat \<Rightarrow> bool" where
  "negative (Finite a) = (a < 0)"
| "negative NegInf = True"
| "negative _ = False"

text \<open>Python's \<open>x <= y\<close> and \<open>x < y\<close> on floats; a comparison with a NaN is false.\<close>

fun float_le :: "pyfloat \<Rightarrow> pyfloat \<Rightarrow> bool" where
  "float_le NaN y = False"
| "float_le x NaN = False"
| "float_le (Finite a) (Finite b) = (a \<le> b)"
| "float_le NegInf y = True"
| "float_le x PosInf = True"
| "float_le x y = False"

fun float_lt :: "pyfloat \<Rightarrow> pyfloat \<Rightarrow> bool" where
  "float_lt NaN y = False"
| "float_lt x NaN = False"
| "float_lt (Finite a) (Finite b) = (a < b)"
| "float_lt PosInf y = False"
| "float_lt x NegInf = False"
| "float_lt x y = True"

definition float_mul :: "pyfloat \<Rightarrow> pyfloat \<Rightarrow> pyfloat" where
  "float_mul x y =
     (case (x, y) of
        (Finite a, Finite b) \<Rightarrow> round_double (a * b)
      | _ \<Rightarrow> if is_nan x \<or> is_nan y \<or> is_zero x \<or> is_zero y then NaN
             else if negative x = negative y then PosInf else NegInf)"

definition float_sub :: "pyfloat \<Rightarrow> pyfloat \<Rightarrow> pyfloat" where
  "float_sub x y =
     (case (x, y) of
        (Finite a, Finite b) \<Rightarrow> round_double (a - b)
      | (Finite a, PosInf) \<Rightarrow> NegInf
      | (Finite a, NegInf) \<Rightarrow> PosInf
      | (PosInf, Finite b) \<Rightarrow> PosInf
      | (PosInf, NegInf) \<Rightarrow> PosInf
      | (NegInf, Finite b) \<Rightarrow> NegInf
      | (NegInf, PosInf) \<Rightarrow> NegInf
      | _ \<Rightarrow> NaN)"

definition float_div :: "pyfloat \<Rightarrow> pyfloat \<Rightarrow> pyfloat" where
  \<comment> \<open>The quotient by a divisor that is not zero.\<close>
  "float_div x y =
     (case (x, y) of
        (Finite a, Finite b) \<Rightarrow> round_double (a / b)
      | (Finite a, NaN) \<Rightarrow> NaN
      | (Finite a, _) \<Rightarrow> Finite 0
      | (_, Finite b) \<Rightarrow> if is_nan x then NaN
                         else if negative x = negative y then PosInf else NegInf
      | _ \<Rightarrow> NaN)"

definition truediv :: "pyfloat \<Rightarrow> pyfloat \<Rightarrow> error + pyfloat" where
  \<comment> \<open>Python's \<open>x / y\<close> on floats: a zero divisor raises, whatever the dividend.\<close>
  "truediv x y = (if is_zero y then Inl ZeroDivisionError else Inr (float_div x y))"

definition py_trunc :: "rat \<Rightarrow> int" where
  "py_trunc a = (if 0 \<le> a then \<lfloor>a\<rfloor> else \<lceil>a\<rceil>)"

fun int_of_float :: "pyfloat \<Rightarrow> error + int" where
  \<comment> \<open>\<open>int(x)\<close> truncates toward zero; an infinity and a NaN have no integer.\<close>
  "int_of_float (Finite a) = Inr (py_trunc a)"
| "int_of_float PosInf = Inl OverflowError"
| "int_of_float NegInf = Inl OverflowError"
| "int_of_float NaN = Inl ValueError"

definition or_float :: "pyfloat option \<Rightarrow> pyfloat \<Rightarrow> pyfloat" where
  \<comment> \<open>\<open>x or d\<close> for an optional float: \<open>None\<close> and a zero are false.\<close>
  "or_float x d = (case x of None \<Rightarrow> d | Some v \<Rightarrow> if is_zero v then d else v)"

section \<open>The search configuration\<close>

record PropertyConfig =
  single_family :: bool
  small_multifamily :: bool
  any_age :: bool
  built_after_1980 :: bool
  built_after_1990 :: bool
  built_after_2000 :: bool

record RentalStrategyConfig =
  market_rate :: bool
  section_8 :: bool

record ManagementConfig =
  property_managed :: bool
  self_managed :: bool
  use_default_fee :: bool
  custom_fee :: "pyfloat option"

record LocationConfig =
  input_method :: string
  use_county :: bool
  use_zip :: bool
  state :: string
  county :: string
  zip_code :: string
  custom_radius :: "int option"

record InvestmentConfig =
  cash_purchase :: bool
  financed_purchase :: bool
  use_default_down :: bool
  custom_down :: "pyfloat option"

record SearchConfig =
  target_roi :: pyfloat
  max_results :: int
  min_days_on_market :: int
  property :: PropertyConfig
  rental_strategy :: RentalStrategyConfig
  management :: ManagementConfig
  location :: LocationConfig
  investment :: InvestmentConfig
  min_price :: "int option"
  max_price :: "int option"

text \<open>The values a dataclass gets when it is constructed without arguments.\<close>

definition default_PropertyConfig :: PropertyConfig where
  "default_PropertyConfig =
     \<lparr>single_family = True, small_multifamily = False, any_age = True,
      built_after_1980 = False, built_after_1990 = False, built_after_2000 = False\<rparr>"

definition default_RentalStrategyConfig :: RentalStrategyConfig where
  "default_RentalStrategyConfig = \<lparr>market_rate = True, section_8 = False\<rparr>"

definition default_ManagementConfig :: ManagementConfig where
  "default_ManagementConfig =
     \<lparr>property_managed = True, self_managed = False, use_default_fee = True,
      custom_fee = None\<rparr>"

definition default_LocationConfig :: LocationConfig where
  "default_LocationConfig =
     \<lparr>input_method = ''manual'', use_county = True, use_zip = False, state = ''NC'',
      county = ''Wake'', zip_code = [], custom_radius = None\<rparr>"

definition default_InvestmentConfig :: InvestmentConfig where
  "default_InvestmentConfig =
     \<lparr>cash_purchase = True, financed_purchase = False, use_default_down = True,
      custom_down = None\<rparr>"

definition default_SearchConfig :: SearchConfig where
  "default_SearchConfig =
     \<lparr>target_roi = Finite 10, max_results = 10, min_days_on_market = 30,
      property = default_PropertyConfig,
      rental_strategy = default_RentalStrategyConfig,
      management = default_ManagementConfig,
      location = default_LocationConfig,
      investment = default_InvestmentConfig,
      min_price = None, max_price = None\<rparr>"

subsection \<open>Derived properties\<close>

definition management_fee_rate :: "ManagementConfig \<Rightarrow> pyfloat" where
  "management_fee_rate self =
     (if self_managed self then Finite 0
      else if use_default_fee self then float_literal (1 / 10)
      else float_div (or_float (custom_fee self) (Finite 10)) (Finite 100))"

definition search_radius :: "LocationConfig \<Rightarrow> int" where
  "search_radius self =
     (case custom_radius self of
        Some r \<Rightarrow> if r \<noteq> 0 then r else if use_county self then 15 else 5
      | None \<Rightarrow> if use_county self then 15 else 5)"

definition down_payment_rate :: "InvestmentConfig \<Rightarrow> pyfloat" where
  "down_payment_rate self =
     (if cash_purchase self then Finite 1
      else if use_default_down self then float_literal (2 / 10)
      else float_div (or_float (custom_down self) (Finite 20)) (Finite 100))"

subsection \<open>\<open>to_zillow_params\<close>\<close>

datatype param = PStr string | PInt int | PFlags "(string \<times> bool) list"

text \<open>
  The two tests \<open>if self.min_price:\<close> and \<open>if self.max_price:\<close> take the truth value
  of an optional integer: \<open>None\<close> and 0 are false.
\<close>

definition to_zillow_params :: "SearchConfig \<Rightarrow> (string \<rightharpoonup> param)" where
  "to_zillow_params self =
     (let params =
            [''location_type'' \<mapsto> PStr (if use_county (location self) then ''county'' else ''zip''),
             ''county'' \<mapsto> PStr (county (location self)),
             ''state'' \<mapsto> PStr (state (location self)),
             ''zip_code'' \<mapsto> PStr (zip_code (location self)),
             ''radius'' \<mapsto> PInt (search_radius (location self)),
             ''max_results'' \<mapsto> PInt (max_results self),
             ''min_days_on_market'' \<mapsto> PInt (min_days_on_market self),
             ''property_types'' \<mapsto>
                PFlags [(''single_family'', single_family (property self)),
                        (''multifamily'', small_multifamily (property self))]];
          params = (case min_price self of
                      None \<Rightarrow> params
                    | Some n \<Rightarrow> if n \<noteq> 0 then params(''min_price'' \<mapsto> PInt n) else params);
          params = (case max_price self of
                      None \<Rightarrow> params
                    | Some n \<Rightarrow> if n \<noteq> 0 then params(''max_price'' \<mapsto> PInt n) else params)
      in params)"

subsection \<open>\<open>calculate_price_range\<close>\<close>

text \<open>
  Lines 129 to 143 compute the local variable \<open>max_price\<close>; the two divisions can
  raise. The last two lines store the bounds, one field after the other, and each
  \<open>int(...)\<close> can raise. The function returns the outcome together with the object
  as the call leaves it.
\<close>

definition local_max_price :: "SearchConfig \<Rightarrow> pyfloat \<Rightarrow> error + pyfloat" where
  "local_max_price self avg_rent =
     (let net_rent = float_mul avg_rent (float_sub (Finite 1) (management_fee_rate (management self)));
          monthly_noi = float_mul net_rent (float_literal (1 / 2));
          annual_noi = float_mul monthly_noi (Finite 12);
          target_roi_decimal = float_div (target_roi self) (Finite 100)
      in if cash_purchase (investment self) then truediv annual_noi target_roi_decimal
         else (let down_payment_rate' = down_payment_rate (investment self)
               in case truediv annual_noi target_roi_decimal of
                    Inl e \<Rightarrow> Inl e
                  | Inr q \<Rightarrow> truediv q down_payment_rate'))"

definition calculate_price_range :: "SearchConfig \<Rightarrow> pyfloat \<Rightarrow> (error + unit) \<times> SearchConfig" where
  "calculate_price_range self avg_rent =
     (case local_max_price self avg_rent of
        Inl e \<Rightarrow> (Inl e, self)
      | Inr max_price' \<Rightarrow>
          (case int_of_float (float_mul max_price' (float_literal (85 / 100))) of
             Inl e \<Rightarrow> (Inl e, self)
           | Inr hi \<Rightarrow>
               (let self' = self\<lparr>max_price := Some hi\<rparr>
                in case int_of_float (float_mul max_price' (float_literal (4 / 10))) of
                     Inl e \<Rightarrow> (Inl e, self')
                   | Inr lo \<Rightarrow> (Inr (), self'\<lparr>min_price := Some lo\<rparr>))))"

section \<open>Properties of the scoring\<close>

lemma int_of_string_150: "int_of_string ''150'' = Inr 150"
  by code_simp

lemma int_of_string_95: "int_of_string ''95'' = Inr 95"
  by code_simp

lemma int_of_string_45: "int_of_string ''45'' = Inr 45"
  by code_simp

lemma int_of_string_Unknown: "int_of_string ''Unknown'' = Inl ValueError"
  by code_simp

lemma dom_score_cases: "dom_score d 0 \<in> {0, 10, 20, 30, 40}"
  by (simp add: dom_score_def split: sum.splits)

lemma score_and_action_present:
  "d ''days_on_market'' = Some v \<Longrightarrow>
   score_and_action d =
     Inr (Some (VInt (dom_score d 0)), Some (VStr (action_for (dom_score d 0))))"
  by (simp add: score_and_action_def calculate_opportunity_score_def getitem_def Let_def)




text \<open>
  Claim C1, as the code has it. A property whose \<open>days_on_market\<close> is \<open>"150"\<close> gets
  the score 40, \<open>"95"\<close> gets 30, \<open>"45"\<close> gets 0 and \<open>"Unknown"\<close> gets 10; the
  recommended action is \<open>"RESEARCH MORE - Gather intel"\<close> in all four cases, since
  every one of these scores is below 50.
\<close>

theorem score_examples:
  "(d ''days_on_market'' = Some (VStr ''150'') \<longrightarrow>
      score_and_action d = Inr (Some (VInt 40), Some (VStr ''RESEARCH MORE - Gather intel''))) \<and>
   (d ''days_on_market'' = Some (VStr ''95'') \<longrightarrow>
      score_and_action d = Inr (Some (VInt 30), Some (VStr ''RESEARCH MORE - Gather intel''))) \<and>
   (d ''days_on_market'' = Some (VStr ''45'') \<longrightarrow>
      score_and_action d = Inr (Some (VInt 0), Some (VStr ''RESEARCH MORE - Gather intel''))) \<and>
   (d ''days_on_market'' = Some (VStr ''Unknown'') \<longrightarrow>
      score_and_action d = Inr (Some (VInt 10), Some (VStr ''RESEARCH MORE - Gather intel'')))"
  by (simp add: score_and_action_present dom_score_def getitem_def action_for_def
      int_of_string_150 int_of_string_95 int_of_string_45 int_of_string_Unknown)

text \<open>The four cases of C1 at four concrete dictionaries.\<close>

theorem score_examples_witness:
  "score_and_action [''days_on_market'' \<mapsto> VStr ''150''] =
     Inr (Some (VInt 40), Some (VStr ''RESEARCH MORE - Gather intel'')) \<and>
   score_and_action [''days_on_market'' \<mapsto> VStr ''95''] =
     Inr (Some (VInt 30), Some (VStr ''RESEARCH MORE - Gather intel'')) \<and>
   score_and_action [''days_on_market'' \<mapsto> VStr ''45''] =
     Inr (Some (VInt 0), Some (VStr ''RESEARCH MORE - Gather intel'')) \<and>
   score_and_action [''days_on_market'' \<mapsto> VStr ''Unknown''] =
     Inr (Some (VInt 10), Some (VStr ''RESEARCH MORE - Gather intel''))"
  using score_examples [of "[''days_on_market'' \<mapsto> VStr ''150'']"]
        score_examples [of "[''days_on_market'' \<mapsto> VStr ''95'']"]
        score_examples [of "[''days_on_market'' \<mapsto> VStr ''45'']"]
        score_examples [of "[''days_on_market'' \<mapsto> VStr ''Unknown'']"]
  by simp

text \<open>
  Claim C1 as the specification words it fails: for \<open>"150"\<close> the action is not
  \<open>"CALL TODAY - Strong opportunity"\<close>.
\<close>

theorem score_150_is_not_call_today:
  "score_and_action [''days_on_market'' \<mapsto> VStr ''150'']
     \<noteq> Inr (Some (VInt 40), Some (VStr ''CALL TODAY - Strong opportunity''))"
  by (simp add: score_and_action_present dom_score_def getitem_def action_for_def
      int_of_string_150)

text \<open>
  Claim C2. Whatever the dictionary, a returned analysis carries a score among 0, 10, 20,
  30 and 40 and the action \<open>"RESEARCH MORE - Gather intel"\<close>; the two other actions are
  never produced.
\<close>

theorem score_below_call_thresholds:
  "calculate_opportunity_score d = Inr r \<Longrightarrow>
     r ''opportunity_score'' \<in>
       {Some (VInt 0), Some (VInt 10), Some (VInt 20), Some (VInt 30), Some (VInt 40)} \<and>
     r ''recommended_action'' = Some (VStr ''RESEARCH MORE - Gather intel'') \<and>
     r ''recommended_action'' \<noteq> Some (VStr ''CALL TODAY - Strong opportunity'') \<and>
     r ''recommended_action'' \<noteq> Some (VStr ''CALL THIS WEEK - Good potential'')"
  using dom_score_cases [of d]
  by (auto simp add: calculate_opportunity_score_def Let_def action_for_def split: sum.splits)

text \<open>C2 at the dictionary with the highest score.\<close>

theorem score_below_call_thresholds_witness:
  "calculate_opportunity_score [''days_on_market'' \<mapsto> VStr ''150''] =
     Inr [''opportunity_score'' \<mapsto> VInt 40,
          ''recommended_action'' \<mapsto> VStr ''RESEARCH MORE - Gather intel'',
          ''analysis_notes'' \<mapsto> VStr ''DOM: 150 days''] \<and>
   [''opportunity_score'' \<mapsto> VInt 40,
    ''recommended_action'' \<mapsto> VStr ''RESEARCH MORE - Gather intel'',
    ''analysis_notes'' \<mapsto> VStr ''DOM: 150 days''] ''recommended_action''
     \<noteq> Some (VStr ''CALL TODAY - Strong opportunity'')"
proof -
  have run: "calculate_opportunity_score [''days_on_market'' \<mapsto> VStr ''150''] =
     Inr [''opportunity_score'' \<mapsto> VInt 40,
          ''recommended_action'' \<mapsto> VStr ''RESEARCH MORE - Gather intel'',
          ''analysis_notes'' \<mapsto> VStr ''DOM: 150 days'']"
    by (simp add: calculate_opportunity_score_def dom_score_def getitem_def action_for_def
        int_of_string_150)
  from score_below_call_thresholds [OF run] run show ?thesis
    by blast
qed

text \<open>
  Claim C6 at a dictionary without the key \<open>days_on_market\<close>: the \<open>try\<close> block
  gives the ten points of an unknown value, and then the construction of
  \<open>analysis_notes\<close> reads the key again and raises \<open>KeyError\<close>.
\<close>

theorem score_missing_dom_raises:
  "dom_score [''address'' \<mapsto> VStr ''12 Oak St''] 0 = 10 \<and>
   calculate_opportunity_score [''address'' \<mapsto> VStr ''12 Oak St''] = Inl KeyError"
  by (simp add: dom_score_def calculate_opportunity_score_def getitem_def)

section \<open>Properties of the batch analysis\<close>











section \<open>Rounding to the nearest double\<close>

lemma nearest_0: "nearest 0 = 0"
  by (simp add: nearest_def)

lemma bitlen_pos: "0 < n \<Longrightarrow> 1 \<le> bitlen n"
  using bitlen_eq_zero_iff [of n] bitlen_nonneg [of n] by linarith

lemma two_powi_nat: "0 \<le> b \<Longrightarrow> (2::rat) powi b = of_int (2 ^ nat b)"
  by (simp add: power_int_def)

lemma ilog2_bounds_ge1:
  assumes "1 \<le> q"
  shows "2 powi (ilog2 q) \<le> q \<and> q < 2 powi (ilog2 q + 1)"
proof -
  define n where "n = \<lfloor>q\<rfloor>"
  have n: "0 < n" using assms by (simp add: n_def)
  define b where "b = bitlen n"
  from bitlen_bounds [OF n] have lo: "2 ^ nat (b - 1) \<le> n" and hi: "n < 2 ^ nat b"
    by (simp_all add: b_def)
  have b1: "1 \<le> b" using n by (simp add: b_def bitlen_pos)
  have il: "ilog2 q = b - 1" using assms by (simp add: ilog2_def n_def b_def)
  have "(2::rat) powi (b - 1) = of_int (2 ^ nat (b - 1))"
    using b1 by (intro two_powi_nat) simp
  also have "\<dots> \<le> of_int n" using lo by (simp only: of_int_le_iff)
  also have "\<dots> \<le> q" by (simp add: n_def)
  finally have A: "2 powi (b - 1) \<le> q" .
  have "q < of_int n + 1" using floor_correct [of q] by (simp add: n_def)
  also have "\<dots> = of_int (n + 1)" by simp
  also have "\<dots> \<le> of_int (2 ^ nat b)" using hi by (simp only: of_int_le_iff)
  also have "\<dots> = 2 powi b" using b1 by (simp add: two_powi_nat)
  finally have B: "q < 2 powi b" .
  from A B il show ?thesis by simp
qed

lemma ilog2_bounds_lt1:
  assumes "0 < q" "q < 1"
  shows "2 powi (ilog2 q) \<le> q \<and> q < 2 powi (ilog2 q + 1)"
proof -
  define y where "y = 1 / q"
  have y1: "1 < y" using assms by (simp add: y_def)
  define m where "m = \<lceil>y\<rceil> - 1"
  have m: "0 < m" using y1 by (simp add: m_def less_ceiling_iff)
  define b where "b = bitlen m"
  from bitlen_bounds [OF m] have lo: "2 ^ nat (b - 1) \<le> m" and hi: "m < 2 ^ nat b"
    by (simp_all add: b_def)
  have b1: "1 \<le> b" using m by (simp add: b_def bitlen_pos)
  have il: "ilog2 q = - b" using assms by (simp add: ilog2_def m_def b_def y_def)
  have my: "of_int m < y" using ceiling_correct [of y] by (simp add: m_def)
  have ym: "y \<le> of_int m + 1" using ceiling_correct [of y] by (simp add: m_def)
  have "y \<le> of_int (m + 1)" using ym by simp
  also have "\<dots> \<le> of_int (2 ^ nat b)" using hi by (simp only: of_int_le_iff)
  also have "\<dots> = 2 powi b" using b1 by (simp add: two_powi_nat)
  finally have yb: "y \<le> 2 powi b" .
  have "(2::rat) powi (b - 1) = of_int (2 ^ nat (b - 1))"
    using b1 by (intro two_powi_nat) simp
  also have "\<dots> \<le> of_int m" using lo by (simp only: of_int_le_iff)
  also have "\<dots> < y" by (rule my)
  finally have by': "2 powi (b - 1) < y" .
  have q: "q = 1 / y" using assms by (simp add: y_def)
  have A: "2 powi (- b) \<le> q"
  proof -
    have "(2::rat) powi (- b) = 1 / 2 powi b" by (simp add: power_int_minus_divide)
    also have "\<dots> \<le> 1 / y" using yb y1 by (intro divide_left_mono) auto
    finally show ?thesis by (simp add: q)
  qed
  have B: "q < 2 powi (- b + 1)"
  proof -
    have "1 / y < 1 / 2 powi (b - 1)"
      using by' y1 by (intro divide_strict_left_mono mult_pos_pos) auto
    also have "\<dots> = 2 powi (- (b - 1))"
      by (simp only: power_int_minus_divide)
    finally show ?thesis by (simp add: q)
  qed
  from A B il show ?thesis by simp
qed

lemma ilog2_bounds:
  "0 < q \<Longrightarrow> 2 powi (ilog2 q) \<le> q \<and> q < 2 powi (ilog2 q + 1)"
  using ilog2_bounds_ge1 [of q] ilog2_bounds_lt1 [of q] by (cases "1 \<le> q") auto

lemma ilog2_mono:
  assumes "0 < x" "x \<le> y"
  shows "ilog2 x \<le> ilog2 y"
proof (rule ccontr)
  assume "\<not> ilog2 x \<le> ilog2 y"
  then have "ilog2 y + 1 \<le> ilog2 x" by simp
  then have "(2::rat) powi (ilog2 y + 1) \<le> 2 powi (ilog2 x)"
    by (intro power_int_increasing) auto
  also have "\<dots> \<le> x" using ilog2_bounds [OF assms(1)] by simp
  also have "\<dots> \<le> y" by (rule assms(2))
  finally show False using ilog2_bounds [of y] assms by simp
qed

lemma round_even_of_int: "round_even (of_int n) = n"
  by (simp add: round_even_def)

lemma round_even_bounds: "\<lfloor>x\<rfloor> \<le> round_even x \<and> round_even x \<le> \<lfloor>x\<rfloor> + 1"
  by (simp add: round_even_def Let_def)

lemma round_even_mono:
  assumes "x \<le> y"
  shows "round_even x \<le> round_even y"
proof (cases "\<lfloor>x\<rfloor> = \<lfloor>y\<rfloor>")
  case True
  with assms show ?thesis by (simp add: round_even_def Let_def)
next
  case False
  with assms have "\<lfloor>x\<rfloor> + 1 \<le> \<lfloor>y\<rfloor>"
    using floor_mono [OF assms] by simp
  with round_even_bounds [of x] round_even_bounds [of y] show ?thesis by linarith
qed

lemma ulp_pos: "0 < ulp q"
  by (simp add: ulp_def)

lemma nearest_le_grid:
  assumes "x \<noteq> 0" "x \<le> g" "g = of_int n * ulp x"
  shows "nearest x \<le> g"
proof -
  have "x / ulp x \<le> g / ulp x"
    using assms(2) ulp_pos [of x] by (simp add: divide_right_mono)
  also have "g / ulp x = of_int n"
    using ulp_pos [of x] by (simp add: assms(3))
  finally have "round_even (x / ulp x) \<le> n"
    using round_even_mono [of "x / ulp x" "of_int n"] by (simp add: round_even_of_int)
  then have "(of_int (round_even (x / ulp x)) :: rat) \<le> of_int n"
    by (simp only: of_int_le_iff)
  then have "of_int (round_even (x / ulp x)) * ulp x \<le> of_int n * ulp x"
    using ulp_pos [of x] by (simp add: mult_right_mono)
  then show ?thesis using assms(1,3) by (simp add: nearest_def)
qed

lemma nearest_ge_grid:
  assumes "y \<noteq> 0" "g \<le> y" "g = of_int n * ulp y"
  shows "g \<le> nearest y"
proof -
  have "g / ulp y \<le> y / ulp y"
    using assms(2) ulp_pos [of y] by (simp add: divide_right_mono)
  moreover have "g / ulp y = of_int n"
    using ulp_pos [of y] by (simp add: assms(3))
  ultimately have "n \<le> round_even (y / ulp y)"
    using round_even_mono [of "of_int n" "y / ulp y"] by (simp add: round_even_of_int)
  then have "(of_int n :: rat) \<le> of_int (round_even (y / ulp y))"
    by (simp only: of_int_le_iff)
  then have "of_int n * ulp y \<le> of_int (round_even (y / ulp y)) * ulp y"
    using ulp_pos [of y] by (simp add: mult_right_mono)
  then show ?thesis using assms(1,3) by (simp add: nearest_def)
qed

lemma nearest_nonneg: "0 \<le> q \<Longrightarrow> 0 \<le> nearest q"
proof (cases "q = 0")
  case True
  then show ?thesis by (simp add: nearest_0)
next
  case False
  assume "0 \<le> q"
  with False show ?thesis
    using nearest_ge_grid [of q 0 0] by simp
qed

lemma two_powi_grid:
  assumes "k \<le> e"
  shows "(2::rat) powi e = of_int (2 ^ nat (e - k)) * 2 powi k"
proof -
  have "(2::rat) powi e = 2 powi ((e - k) + k)" by simp
  also have "\<dots> = 2 powi (e - k) * 2 powi k"
    by (rule power_int_add) simp
  also have "(2::rat) powi (e - k) = of_int (2 ^ nat (e - k))"
    using assms by (intro two_powi_nat) simp
  finally show ?thesis .
qed

lemma nearest_mono_pos:
  assumes "0 < x" "x \<le> y"
  shows "nearest x \<le> nearest y"
proof -
  define ex where "ex = max (ilog2 x) (- 1022)"
  define ey where "ey = max (ilog2 y) (- 1022)"
  have y: "0 < y" using assms by simp
  have ux: "ulp x = 2 powi (ex - 52)" using assms(1) by (simp add: ulp_def ex_def)
  have uy: "ulp y = 2 powi (ey - 52)" using y by (simp add: ulp_def ey_def)
  have le: "ex \<le> ey"
    using ilog2_mono [OF assms] by (simp add: ex_def ey_def)
  show ?thesis
  proof (cases "ex = ey")
    case True
    then have u: "ulp y = ulp x" by (simp add: ux uy)
    have "x / ulp x \<le> y / ulp x"
      using assms(2) ulp_pos [of x] by (simp add: divide_right_mono)
    then have "round_even (x / ulp x) \<le> round_even (y / ulp x)"
      by (rule round_even_mono)
    then have "(of_int (round_even (x / ulp x)) :: rat) \<le> of_int (round_even (y / ulp x))"
      by (simp only: of_int_le_iff)
    then have "of_int (round_even (x / ulp x)) * ulp x \<le> of_int (round_even (y / ulp x)) * ulp x"
      using ulp_pos [of x] by (simp add: mult_right_mono)
    then show ?thesis using assms(1) y by (simp add: nearest_def u)
  next
    case False
    with le have lt: "ex < ey" by simp
    then have ey: "ey = ilog2 y" by (simp add: ex_def ey_def max_def split: if_splits)
    define b :: rat where "b = 2 powi ey"
    have by': "b \<le> y" using ilog2_bounds [OF y] by (simp add: b_def ey)
    have "x < 2 powi (ilog2 x + 1)" using ilog2_bounds [OF assms(1)] by simp
    also have "\<dots> \<le> 2 powi ey"
      using lt by (intro power_int_increasing) (auto simp add: ex_def)
    finally have xb: "x \<le> b" by (simp add: b_def)
    have "nearest x \<le> b"
      using assms(1) xb two_powi_grid [of "ex - 52" ey] lt
      by (intro nearest_le_grid [where n = "2 ^ nat (ey - (ex - 52))"]) (auto simp add: b_def ux)
    moreover have "b \<le> nearest y"
      using y by' two_powi_grid [of "ey - 52" ey]
      by (intro nearest_ge_grid [where n = "2 ^ nat (ey - (ey - 52))"]) (auto simp add: b_def uy)
    ultimately show ?thesis by simp
  qed
qed

lemma nearest_mono:
  assumes "0 \<le> x" "x \<le> y"
  shows "nearest x \<le> nearest y"
proof (cases "x = 0")
  case True
  with assms show ?thesis by (simp add: nearest_0 nearest_nonneg)
next
  case False
  with assms show ?thesis by (intro nearest_mono_pos) auto
qed

section \<open>Signs of float results\<close>

lemma round_double_0: "round_double 0 = Finite 0"
  by (simp add: round_double_def nearest_0)

lemma literal_85: "float_literal (17 / 20) = Finite (7656119366529843 / 9007199254740992)"
  by code_simp

lemma literal_40: "float_literal (2 / 5) = Finite (3602879701896397 / 9007199254740992)"
  by code_simp

lemma round_double_Finite: "round_double q = Finite r \<Longrightarrow> r = nearest q"
  by (simp add: round_double_def Let_def split: if_splits)

lemma round_double_nonneg: "0 \<le> q \<Longrightarrow> \<not> negative (round_double q)"
  using nearest_nonneg [of q] by (simp add: round_double_def Let_def)

lemma float_literal_nonneg: "0 \<le> q \<Longrightarrow> \<not> negative (float_literal q)"
  by (simp add: float_literal_def round_double_nonneg)

lemma float_mul_nonneg:
  "\<not> negative x \<Longrightarrow> \<not> negative y \<Longrightarrow> \<not> negative (float_mul x y)"
  by (cases x; cases y) (simp_all add: float_mul_def round_double_nonneg)

lemma float_div_nonneg:
  "\<not> negative x \<Longrightarrow> \<not> negative y \<Longrightarrow> \<not> negative (float_div x y)"
  by (cases x; cases y) (simp_all add: float_div_def round_double_nonneg)

lemma truediv_nonneg:
  "\<not> negative x \<Longrightarrow> \<not> negative y \<Longrightarrow> truediv x y = Inr z \<Longrightarrow> \<not> negative z"
  by (auto simp add: truediv_def float_div_nonneg split: if_splits)

lemma one_minus_nonneg:
  "float_le r (Finite 1) \<Longrightarrow> \<not> negative (float_sub (Finite 1) r)"
  by (cases r) (simp_all add: float_sub_def round_double_nonneg)

lemma float_le_0_nonneg: "float_le (Finite 0) x \<Longrightarrow> \<not> negative x"
  by (cases x) simp_all

lemma float_lt_0_nonneg: "float_lt (Finite 0) x \<Longrightarrow> \<not> negative x"
  by (cases x) simp_all

lemma local_max_price_nonneg:
  assumes "float_le (Finite 0) avg_rent"
    and "float_lt (Finite 0) (target_roi cfg)"
    and "float_le (management_fee_rate (management cfg)) (Finite 1)"
    and "float_lt (Finite 0) (down_payment_rate (investment cfg))"
    and "local_max_price cfg avg_rent = Inr x"
  shows "\<not> negative x"
proof -
  define annual_noi where "annual_noi =
    float_mul (float_mul (float_mul avg_rent
      (float_sub (Finite 1) (management_fee_rate (management cfg)))) (float_literal (1 / 2)))
      (Finite 12)"
  define target_roi_decimal where "target_roi_decimal = float_div (target_roi cfg) (Finite 100)"
  have a: "\<not> negative annual_noi"
    unfolding annual_noi_def
    by (intro float_mul_nonneg float_le_0_nonneg one_minus_nonneg float_literal_nonneg assms)
       simp_all
  have t: "\<not> negative target_roi_decimal"
    unfolding target_roi_decimal_def
    by (intro float_div_nonneg float_lt_0_nonneg assms) simp
  have d: "\<not> negative (down_payment_rate (investment cfg))"
    by (intro float_lt_0_nonneg assms)
  have "(if cash_purchase (investment cfg) then truediv annual_noi target_roi_decimal
      else case truediv annual_noi target_roi_decimal of
            Inl e \<Rightarrow> Inl e
          | Inr q \<Rightarrow> truediv q (down_payment_rate (investment cfg))) = Inr x"
    using assms(5)
    unfolding local_max_price_def Let_def annual_noi_def target_roi_decimal_def .
  then show ?thesis
    using truediv_nonneg [OF a t] truediv_nonneg [OF _ d]
    by (auto split: if_splits sum.splits)
qed

lemma py_trunc_nonneg: "0 \<le> a \<Longrightarrow> 0 \<le> py_trunc a"
  by (simp add: py_trunc_def)

lemma py_trunc_mono: "0 \<le> a \<Longrightarrow> a \<le> b \<Longrightarrow> py_trunc a \<le> py_trunc b"
  by (simp add: py_trunc_def floor_mono)

lemma int_of_rounded:
  "int_of_float (round_double p) = Inr n \<Longrightarrow> n = py_trunc (nearest p)"
  by (cases "round_double p") (auto dest: round_double_Finite)

lemma buffers_ordered:
  assumes "\<not> negative x"
    and "int_of_float (float_mul x (float_literal (85 / 100))) = Inr hi"
    and "int_of_float (float_mul x (float_literal (4 / 10))) = Inr lo"
  shows "0 \<le> lo \<and> lo \<le> hi"
proof (cases x)
  case (Finite q)
  with assms(1) have q: "0 \<le> q" by simp
  have hi: "hi = py_trunc (nearest (q * (7656119366529843 / 9007199254740992)))"
    using assms(2) by (intro int_of_rounded) (simp add: Finite float_mul_def literal_85)
  have lo: "lo = py_trunc (nearest (q * (3602879701896397 / 9007199254740992)))"
    using assms(3) by (intro int_of_rounded) (simp add: Finite float_mul_def literal_40)
  have "0 \<le> q * (3602879701896397 / 9007199254740992)" using q by simp
  moreover have "q * (3602879701896397 / 9007199254740992) \<le>
                 q * (7656119366529843 / 9007199254740992)"
    using q by (intro mult_left_mono) simp_all
  ultimately show ?thesis
    unfolding hi lo
    by (intro conjI py_trunc_nonneg py_trunc_mono nearest_nonneg nearest_mono)
next
  case PosInf
  with assms(2) show ?thesis by (simp add: float_mul_def literal_85)
next
  case NegInf
  with assms(1) show ?thesis by simp
next
  case NaN
  with assms(2) show ?thesis by (simp add: float_mul_def literal_85)
qed

section \<open>Evaluating float operations\<close>

lemma literal_tenth: "float_literal (1 / 10) = Finite (3602879701896397 / 36028797018963968)"
  by code_simp

lemma literal_fifth: "float_literal (1 / 5) = Finite (3602879701896397 / 18014398509481984)"
  by code_simp

lemma literal_half: "float_literal (1 / 2) = Finite (1 / 2)"
  by code_simp

lemma one_minus_tenth:
  "float_sub (Finite 1) (Finite (3602879701896397 / 36028797018963968)) =
     Finite (8106479329266893 / 9007199254740992)"
  by code_simp

lemma net_rent_1400:
  "float_mul (Finite 1400) (Finite (8106479329266893 / 9007199254740992)) = Finite 1260"
  by code_simp

lemma monthly_noi_1400: "float_mul (Finite 1260) (Finite (1 / 2)) = Finite 630"
  by code_simp

lemma annual_noi_1400: "float_mul (Finite 630) (Finite 12) = Finite 7560"
  by code_simp

lemma roi_10_decimal:
  "float_div (Finite 10) (Finite 100) = Finite (3602879701896397 / 36028797018963968)"
  by code_simp

lemma cash_price_1400:
  "float_div (Finite 7560) (Finite (3602879701896397 / 36028797018963968)) = Finite 75600"
  by code_simp

lemma cash_upper_1400:
  "float_mul (Finite 75600) (Finite (7656119366529843 / 9007199254740992)) = Finite 64260"
  by code_simp

lemma cash_lower_1400:
  "float_mul (Finite 75600) (Finite (3602879701896397 / 9007199254740992)) = Finite 30240"
  by code_simp

lemma financed_price_1400:
  "float_div (Finite 75600) (Finite (3602879701896397 / 18014398509481984)) = Finite 378000"
  by code_simp

lemma financed_upper_1400:
  "float_mul (Finite 378000) (Finite (7656119366529843 / 9007199254740992)) = Finite 321300"
  by code_simp

lemma financed_lower_1400:
  "float_mul (Finite 378000) (Finite (3602879701896397 / 9007199254740992)) = Finite 151200"
  by code_simp

lemma py_trunc_of_int: "py_trunc (of_int n) = n"
  by (simp add: py_trunc_def)

lemma py_trunc_numeral: "py_trunc (numeral k) = numeral k"
  using py_trunc_of_int [of "numeral k"] by simp

lemma py_trunc_0: "py_trunc 0 = 0"
  by (simp add: py_trunc_def)

lemmas eval_1400 =
  literal_tenth literal_fifth literal_half literal_85 literal_40 one_minus_tenth
  net_rent_1400 monthly_noi_1400 annual_noi_1400 roi_10_decimal cash_price_1400
  cash_upper_1400 cash_lower_1400 financed_price_1400 financed_upper_1400
  financed_lower_1400 py_trunc_numeral

section \<open>Properties of the price range\<close>

lemma local_max_price_1400_cash:
  assumes "target_roi cfg = Finite 10"
    and "management_fee_rate (management cfg) = float_literal (1 / 10)"
    and "cash_purchase (investment cfg)"
  shows "local_max_price cfg (Finite 1400) = Inr (Finite 75600)"
  using assms by (simp add: local_max_price_def truediv_def Let_def eval_1400)

lemma local_max_price_1400_financed:
  assumes "target_roi cfg = Finite 10"
    and "management_fee_rate (management cfg) = float_literal (1 / 10)"
    and "\<not> cash_purchase (investment cfg)"
    and "down_payment_rate (investment cfg) = float_literal (2 / 10)"
  shows "local_max_price cfg (Finite 1400) = Inr (Finite 378000)"
  using assms by (simp add: local_max_price_def truediv_def Let_def eval_1400)

text \<open>
  Claim C5. With a monthly rent of 1400, a target of 10.0 percent and a fee rate of 0.10,
  a cash purchase gives the price 75600 before the buffers and the bounds 64260 and 30240;
  a financed purchase with a down-payment rate of 0.20 gives 378000 and the bounds 321300
  and 151200. The numbers are those of double-precision arithmetic, which is exact here.
\<close>

theorem price_range_1400:
  assumes "target_roi cfg = Finite 10"
    and "management_fee_rate (management cfg) = float_literal (1 / 10)"
  shows "(cash_purchase (investment cfg) \<longrightarrow>
            local_max_price cfg (Finite 1400) = Inr (Finite 75600) \<and>
            calculate_price_range cfg (Finite 1400) =
              (Inr (), cfg\<lparr>max_price := Some 64260, min_price := Some 30240\<rparr>)) \<and>
         (\<not> cash_purchase (investment cfg) \<and>
          down_payment_rate (investment cfg) = float_literal (2 / 10) \<longrightarrow>
            local_max_price cfg (Finite 1400) = Inr (Finite 378000) \<and>
            calculate_price_range cfg (Finite 1400) =
              (Inr (), cfg\<lparr>max_price := Some 321300, min_price := Some 151200\<rparr>))"
  using assms
  by (simp add: calculate_price_range_def local_max_price_1400_cash
      local_max_price_1400_financed Let_def eval_1400)

text \<open>
  C5 at the default configuration (a cash purchase) and at the default configuration with
  a financed purchase and the default down payment.
\<close>

theorem price_range_1400_witness:
  "calculate_price_range default_SearchConfig (Finite 1400) =
     (Inr (), default_SearchConfig\<lparr>max_price := Some 64260, min_price := Some 30240\<rparr>) \<and>
   calculate_price_range
     (default_SearchConfig\<lparr>investment :=
        \<lparr>cash_purchase = False, financed_purchase = True, use_default_down = True,
         custom_down = None\<rparr>\<rparr>) (Finite 1400) =
     (Inr (), default_SearchConfig\<lparr>investment :=
        \<lparr>cash_purchase = False, financed_purchase = True, use_default_down = True,
         custom_down = None\<rparr>, max_price := Some 321300, min_price := Some 151200\<rparr>)"
  using price_range_1400 [of default_SearchConfig]
        price_range_1400 [of "default_SearchConfig\<lparr>investment :=
          \<lparr>cash_purchase = False, financed_purchase = True, use_default_down = True,
           custom_down = None\<rparr>\<rparr>"]
  by (simp add: default_SearchConfig_def default_ManagementConfig_def
      default_InvestmentConfig_def management_fee_rate_def down_payment_rate_def)

lemma roi_0_decimal: "float_div (Finite 0) (Finite 100) = Finite 0"
  by (simp add: float_div_def round_double_0)

text \<open>
  Claim C3, as the code has it. With a target of 0 the division by the target raises
  \<open>ZeroDivisionError\<close>, for a cash and for a financed purchase and whatever the rent,
  and the configuration is left as it was. No infinity or NaN is stored.
\<close>

theorem zero_roi_raises_ZeroDivisionError:
  "target_roi cfg = Finite 0 \<Longrightarrow>
   calculate_price_range cfg avg_rent = (Inl ZeroDivisionError, cfg)"
  by (simp add: calculate_price_range_def local_max_price_def truediv_def Let_def roi_0_decimal)

text \<open>C3 at the default configuration with the target set to 0.\<close>

theorem zero_roi_raises_ZeroDivisionError_witness:
  "target_roi (default_SearchConfig\<lparr>target_roi := Finite 0\<rparr>) = Finite 0 \<and>
   calculate_price_range (default_SearchConfig\<lparr>target_roi := Finite 0\<rparr>) (Finite 1400) =
     (Inl ZeroDivisionError, default_SearchConfig\<lparr>target_roi := Finite 0\<rparr>)"
  using zero_roi_raises_ZeroDivisionError
          [of "default_SearchConfig\<lparr>target_roi := Finite 0\<rparr>" "Finite 1400"]
  by simp

text \<open>
  Claim C3 as the specification words it fails: the error of a zero target is not
  \<open>InvalidConfiguration\<close>.
\<close>

theorem zero_roi_is_not_InvalidConfiguration:
  "fst (calculate_price_range (default_SearchConfig\<lparr>target_roi := Finite 0\<rparr>) (Finite 1400))
     \<noteq> Inl InvalidConfiguration"
  by (simp add: calculate_price_range_def local_max_price_def truediv_def Let_def roi_0_decimal)

lemma float_mul_0_left: "float_mul (Finite 0) (Finite b) = Finite 0"
  by (simp add: float_mul_def round_double_0)

lemma float_div_0_left: "float_div (Finite 0) (Finite b) = Finite 0"
  by (simp add: float_div_def round_double_0)

lemma price_range_of_no_rent:
  "calculate_price_range default_SearchConfig (Finite 0) =
     (Inr (), default_SearchConfig\<lparr>max_price := Some 0, min_price := Some 0\<rparr>)"
  by (simp add: calculate_price_range_def local_max_price_def truediv_def
      default_SearchConfig_def default_ManagementConfig_def default_InvestmentConfig_def
      management_fee_rate_def Let_def eval_1400 float_mul_0_left float_div_0_left py_trunc_0)

text \<open>
  Claim C4 at the default configuration and a rent of 0: \<open>calculate_price_range\<close>
  returns normally and stores 0 in both bounds, and \<open>to_zillow_params\<close> then has
  neither \<open>min_price\<close> nor \<open>max_price\<close>, because its two tests take 0 for false.
\<close>

theorem zero_bounds_are_dropped:
  "fst (calculate_price_range default_SearchConfig (Finite 0)) = Inr () \<and>
   min_price (snd (calculate_price_range default_SearchConfig (Finite 0))) = Some 0 \<and>
   max_price (snd (calculate_price_range default_SearchConfig (Finite 0))) = Some 0 \<and>
   to_zillow_params (snd (calculate_price_range default_SearchConfig (Finite 0))) ''min_price''
     = None \<and>
   to_zillow_params (snd (calculate_price_range default_SearchConfig (Finite 0))) ''max_price''
     = None"
  by (simp add: price_range_of_no_rent to_zillow_params_def)

text \<open>
  Claim C9 at a managed configuration with the custom fee set to 0: the rate is that of
  the substituted 10.0, the double 0.1, and not 0.
\<close>

theorem zero_custom_fee_is_replaced:
  "management_fee_rate
     \<lparr>property_managed = True, self_managed = False, use_default_fee = False,
      custom_fee = Some (Finite 0)\<rparr> = Finite (3602879701896397 / 36028797018963968) \<and>
   management_fee_rate
     \<lparr>property_managed = True, self_managed = False, use_default_fee = False,
      custom_fee = Some (Finite 0)\<rparr> \<noteq> float_div (Finite 0) (Finite 100)"
  by (simp add: management_fee_rate_def or_float_def roi_10_decimal roi_0_decimal)

text \<open>
  Claim C10. A call of \<open>calculate_price_range\<close> that returns normally leaves every
  field other than \<open>min_price\<close> and \<open>max_price\<close> as it was.
\<close>

theorem price_range_frame:
  "calculate_price_range cfg avg_rent = (Inr (), cfg') \<Longrightarrow>
     target_roi cfg' = target_roi cfg \<and>
     max_results cfg' = max_results cfg \<and>
     min_days_on_market cfg' = min_days_on_market cfg \<and>
     property cfg' = property cfg \<and>
     rental_strategy cfg' = rental_strategy cfg \<and>
     management cfg' = management cfg \<and>
     location cfg' = location cfg \<and>
     investment cfg' = investment cfg"
  by (auto simp add: calculate_price_range_def Let_def split: sum.splits)

text \<open>C10 at the default configuration and a rent of 0.\<close>

theorem price_range_frame_witness:
  "calculate_price_range default_SearchConfig (Finite 0) =
     (Inr (), default_SearchConfig\<lparr>max_price := Some 0, min_price := Some 0\<rparr>) \<and>
   target_roi (default_SearchConfig\<lparr>max_price := Some 0, min_price := Some 0\<rparr>) =
     target_roi default_SearchConfig \<and>
   management (default_SearchConfig\<lparr>max_price := Some 0, min_price := Some 0\<rparr>) =
     management default_SearchConfig \<and>
   investment (default_SearchConfig\<lparr>max_price := Some 0, min_price := Some 0\<rparr>) =
     investment default_SearchConfig"
  using price_range_frame [OF price_range_of_no_rent] price_range_of_no_rent
  by simp

section \<open>The order of the two bounds\<close>

lemma price_range_default_1400:
  "calculate_price_range default_SearchConfig (Finite 1400) =
     (Inr (), default_SearchConfig\<lparr>max_price := Some 64260, min_price := Some 30240\<rparr>)"
  by (simp add: calculate_price_range_def local_max_price_def truediv_def Let_def
      default_SearchConfig_def default_ManagementConfig_def default_InvestmentConfig_def
      management_fee_rate_def eval_1400)

text \<open>
  Claim C7, as the code has it. Let the rent be at least 0, the target above 0, the
  management fee rate at most 1 and the down-payment rate above 0. Whenever
  \<open>calculate_price_range\<close> returns normally, both bounds are set, to integers, and
  \<open>max_price \<ge> min_price \<ge> 0\<close>. A configuration constructed with the defaults has
  both bounds unset.
\<close>

theorem price_range_ordered:
  assumes "float_le (Finite 0) avg_rent"
    and "float_lt (Finite 0) (target_roi cfg)"
    and "float_le (management_fee_rate (management cfg)) (Finite 1)"
    and "float_lt (Finite 0) (down_payment_rate (investment cfg))"
    and "calculate_price_range cfg avg_rent = (Inr (), cfg')"
  shows "(\<exists>lo hi. min_price cfg' = Some lo \<and> max_price cfg' = Some hi \<and>
                  0 \<le> lo \<and> lo \<le> hi) \<and>
         min_price default_SearchConfig = None \<and> max_price default_SearchConfig = None"
proof -
  from assms(5) obtain x hi lo where
    x: "local_max_price cfg avg_rent = Inr x"
    and hi: "int_of_float (float_mul x (float_literal (85 / 100))) = Inr hi"
    and lo: "int_of_float (float_mul x (float_literal (4 / 10))) = Inr lo"
    and cfg': "cfg' = cfg\<lparr>max_price := Some hi, min_price := Some lo\<rparr>"
    by (auto simp add: calculate_price_range_def Let_def split: sum.splits)
  have "\<not> negative x"
    using assms(1-4) x by (rule local_max_price_nonneg)
  from buffers_ordered [OF this hi lo] show ?thesis
    by (simp add: cfg' default_SearchConfig_def)
qed

text \<open>C7 at the default configuration and a rent of 1400.\<close>

theorem price_range_ordered_witness:
  "float_le (Finite 0) (Finite 1400) \<and>
   float_lt (Finite 0) (target_roi default_SearchConfig) \<and>
   float_le (management_fee_rate (management default_SearchConfig)) (Finite 1) \<and>
   float_lt (Finite 0) (down_payment_rate (investment default_SearchConfig)) \<and>
   calculate_price_range default_SearchConfig (Finite 1400) =
     (Inr (), default_SearchConfig\<lparr>max_price := Some 64260, min_price := Some 30240\<rparr>) \<and>
   min_price (default_SearchConfig\<lparr>max_price := Some 64260, min_price := Some 30240\<rparr>)
     = Some 30240 \<and>
   max_price (default_SearchConfig\<lparr>max_price := Some 64260, min_price := Some 30240\<rparr>)
     = Some 64260 \<and>
   min_price default_SearchConfig = None \<and> max_price default_SearchConfig = None"
proof -
  have h1: "float_le (Finite 0) (Finite 1400)" by simp
  have h2: "float_lt (Finite 0) (target_roi default_SearchConfig)"
    by (simp add: default_SearchConfig_def)
  have h3: "float_le (management_fee_rate (management default_SearchConfig)) (Finite 1)"
    by (simp add: default_SearchConfig_def default_ManagementConfig_def
        management_fee_rate_def literal_tenth)
  have h4: "float_lt (Finite 0) (down_payment_rate (investment default_SearchConfig))"
    by (simp add: default_SearchConfig_def default_InvestmentConfig_def down_payment_rate_def)
  from price_range_ordered [OF h1 h2 h3 h4 price_range_default_1400]
       h1 h2 h3 h4 price_range_default_1400
  show ?thesis by simp
qed

lemma fee_200_rate: "float_div (Finite 200) (Finite 100) = Finite 2"
  by code_simp

lemma one_minus_2: "float_sub (Finite 1) (Finite 2) = Finite (- 1)"
  by code_simp

lemma net_rent_fee_200: "float_mul (Finite 1000) (Finite (- 1)) = Finite (- 1000)"
  by code_simp

lemma monthly_noi_fee_200: "float_mul (Finite (- 1000)) (Finite (1 / 2)) = Finite (- 500)"
  by code_simp

lemma annual_noi_fee_200: "float_mul (Finite (- 500)) (Finite 12) = Finite (- 6000)"
  by code_simp

lemma price_fee_200:
  "float_div (Finite (- 6000)) (Finite (3602879701896397 / 36028797018963968)) =
     Finite (- 60000)"
  by code_simp

lemma upper_fee_200:
  "float_mul (Finite (- 60000)) (Finite (7656119366529843 / 9007199254740992)) =
     Finite (- 51000)"
  by code_simp

lemma lower_fee_200:
  "float_mul (Finite (- 60000)) (Finite (3602879701896397 / 9007199254740992)) =
     Finite (- 24000)"
  by code_simp

lemma net_rent_1000:
  "float_mul (Finite 1000) (Finite (8106479329266893 / 9007199254740992)) = Finite 900"
  by code_simp

lemma monthly_noi_1000: "float_mul (Finite 900) (Finite (1 / 2)) = Finite 450"
  by code_simp

lemma annual_noi_1000: "float_mul (Finite 450) (Finite 12) = Finite 5400"
  by code_simp

lemma cash_price_1000:
  "float_div (Finite 5400) (Finite (3602879701896397 / 36028797018963968)) = Finite 54000"
  by code_simp

lemma down_minus_20_rate:
  "float_div (Finite (- 20)) (Finite 100) = Finite (- (3602879701896397 / 18014398509481984))"
  by code_simp

lemma price_down_minus_20:
  "float_div (Finite 54000) (Finite (- (3602879701896397 / 18014398509481984))) =
     Finite (- 270000)"
  by code_simp

lemma upper_down_minus_20:
  "float_mul (Finite (- 270000)) (Finite (7656119366529843 / 9007199254740992)) =
     Finite (- 229500)"
  by code_simp

lemma lower_down_minus_20:
  "float_mul (Finite (- 270000)) (Finite (3602879701896397 / 9007199254740992)) =
     Finite (- 108000)"
  by code_simp

lemma float_mul_PosInf: "0 < b \<Longrightarrow> float_mul PosInf (Finite b) = PosInf"
  by (simp add: float_mul_def)

lemma float_div_PosInf: "0 < b \<Longrightarrow> float_div PosInf (Finite b) = PosInf"
  by (simp add: float_div_def)

lemma py_trunc_neg_numeral: "py_trunc (- numeral k) = - numeral k"
  using py_trunc_of_int [of "- numeral k"] by simp

lemmas eval_negative =
  fee_200_rate one_minus_2 net_rent_fee_200 monthly_noi_fee_200 annual_noi_fee_200
  price_fee_200 upper_fee_200 lower_fee_200 net_rent_1000 monthly_noi_1000
  annual_noi_1000 cash_price_1000 down_minus_20_rate price_down_minus_20
  upper_down_minus_20 lower_down_minus_20 py_trunc_neg_numeral

text \<open>
  Claim C7 as the specification words it fails, with a rent of at least 0 and the default
  target of 10. A custom management fee of 200 percent gives the bounds
  \<open>max_price = -51000\<close> and \<open>min_price = -24000\<close>; a financed purchase with a custom
  down payment of -20 percent gives \<open>-229500\<close> and \<open>-108000\<close>; an infinite rent
  raises \<open>OverflowError\<close> and sets no bound.
\<close>

theorem price_range_not_always_ordered:
  "calculate_price_range
     (default_SearchConfig\<lparr>management :=
        \<lparr>property_managed = True, self_managed = False, use_default_fee = False,
         custom_fee = Some (Finite 200)\<rparr>\<rparr>) (Finite 1000) =
     (Inr (), default_SearchConfig\<lparr>management :=
        \<lparr>property_managed = True, self_managed = False, use_default_fee = False,
         custom_fee = Some (Finite 200)\<rparr>,
        max_price := Some (- 51000), min_price := Some (- 24000)\<rparr>) \<and>
   calculate_price_range
     (default_SearchConfig\<lparr>investment :=
        \<lparr>cash_purchase = False, financed_purchase = True, use_default_down = False,
         custom_down = Some (Finite (- 20))\<rparr>\<rparr>) (Finite 1000) =
     (Inr (), default_SearchConfig\<lparr>investment :=
        \<lparr>cash_purchase = False, financed_purchase = True, use_default_down = False,
         custom_down = Some (Finite (- 20))\<rparr>,
        max_price := Some (- 229500), min_price := Some (- 108000)\<rparr>) \<and>
   calculate_price_range default_SearchConfig PosInf =
     (Inl OverflowError, default_SearchConfig)"
proof (intro conjI)
  show "calculate_price_range
     (default_SearchConfig\<lparr>management :=
        \<lparr>property_managed = True, self_managed = False, use_default_fee = False,
         custom_fee = Some (Finite 200)\<rparr>\<rparr>) (Finite 1000) =
     (Inr (), default_SearchConfig\<lparr>management :=
        \<lparr>property_managed = True, self_managed = False, use_default_fee = False,
         custom_fee = Some (Finite 200)\<rparr>,
        max_price := Some (- 51000), min_price := Some (- 24000)\<rparr>)"
    by (simp add: calculate_price_range_def local_max_price_def truediv_def Let_def
        default_SearchConfig_def default_InvestmentConfig_def management_fee_rate_def
        or_float_def eval_1400 eval_negative)
next
  show "calculate_price_range
     (default_SearchConfig\<lparr>investment :=
        \<lparr>cash_purchase = False, financed_purchase = True, use_default_down = False,
         custom_down = Some (Finite (- 20))\<rparr>\<rparr>) (Finite 1000) =
     (Inr (), default_SearchConfig\<lparr>investment :=
        \<lparr>cash_purchase = False, financed_purchase = True, use_default_down = False,
         custom_down = Some (Finite (- 20))\<rparr>,
        max_price := Some (- 229500), min_price := Some (- 108000)\<rparr>)"
    by (simp add: calculate_price_range_def local_max_price_def truediv_def Let_def
        default_SearchConfig_def default_ManagementConfig_def management_fee_rate_def
        down_payment_rate_def or_float_def eval_1400 eval_negative)
next
  show "calculate_price_range default_SearchConfig PosInf =
     (Inl OverflowError, default_SearchConfig)"
    by (simp add: calculate_price_range_def local_max_price_def truediv_def Let_def
        default_SearchConfig_def default_ManagementConfig_def default_InvestmentConfig_def
        management_fee_rate_def float_mul_PosInf float_div_PosInf eval_1400)
qed

end
